theory Spec2Isabelle
  imports Complex_Main
begin

section \<open>Masked batch normalization (func\_active\_bn.py)\<close>

text \<open>
  A shallow embedding of \<^verbatim>\<open>voxelnet/models/func_active_bn.py\<close>: the classes
  \<^verbatim>\<open>BatchNormalization\<close>, \<^verbatim>\<open>BatchNormalizationGrad\<close>,
  \<^verbatim>\<open>FixedBatchNormalization\<close>, \<^verbatim>\<open>FixedBatchNormalizationGrad\<close> and the helpers
  \<^verbatim>\<open>_x_hat\<close>, \<^verbatim>\<open>_apply_bn_fwd\<close>, \<^verbatim>\<open>_BNMode\<close>.

  Array elements are idealised floating-point numbers: a real number, or one of the three
  non-finite values that NumPy produces without raising (\<open>inf\<close>, \<open>-inf\<close>, \<open>nan\<close>).
  Rounding, overflow and the sign of zero are not modelled.
\<close>

subsection \<open>Idealised floating-point values\<close>

datatype fl = Fin real | PInf | NInf | NaN

fun is_fin :: "fl \<Rightarrow> bool" where
  "is_fin (Fin a) = True"
| "is_fin PInf = False"
| "is_fin NInf = False"
| "is_fin NaN = False"


instantiation fl :: "{zero,one,plus,minus,uminus,times}"
begin

definition zero_fl :: fl where
  "zero_fl = Fin 0"

definition one_fl :: fl where
  "one_fl = Fin 1"

fun uminus_fl :: "fl \<Rightarrow> fl" where
  "uminus_fl (Fin a) = Fin (- a)"
| "uminus_fl PInf = NInf"
| "uminus_fl NInf = PInf"
| "uminus_fl NaN = NaN"

fun plus_fl :: "fl \<Rightarrow> fl \<Rightarrow> fl" where
  "plus_fl (Fin a) (Fin b) = Fin (a + b)"
| "plus_fl NaN y = NaN"
| "plus_fl x NaN = NaN"
| "plus_fl PInf NInf = NaN"
| "plus_fl NInf PInf = NaN"
| "plus_fl PInf y = PInf"
| "plus_fl x PInf = PInf"
| "plus_fl NInf y = NInf"
| "plus_fl x NInf = NInf"

definition minus_fl :: "fl \<Rightarrow> fl \<Rightarrow> fl" where
  "minus_fl x y = x + (- y)"

fun times_fl :: "fl \<Rightarrow> fl \<Rightarrow> fl" where
  "times_fl (Fin a) (Fin b) = Fin (a * b)"
| "times_fl NaN y = NaN"
| "times_fl x NaN = NaN"
| "times_fl (Fin a) PInf = (if a = 0 then NaN else if 0 < a then PInf else NInf)"
| "times_fl (Fin a) NInf = (if a = 0 then NaN else if 0 < a then NInf else PInf)"
| "times_fl PInf (Fin b) = (if b = 0 then NaN else if 0 < b then PInf else NInf)"
| "times_fl NInf (Fin b) = (if b = 0 then NaN else if 0 < b then NInf else PInf)"
| "times_fl PInf PInf = PInf"
| "times_fl PInf NInf = NInf"
| "times_fl NInf PInf = NInf"
| "times_fl NInf NInf = PInf"

instance ..

end

text \<open>Division \<open>x / y\<close> (NumPy's \<open>true_divide\<close>); a zero divisor is \<open>+0\<close>.\<close>

fun fdiv :: "fl \<Rightarrow> fl \<Rightarrow> fl" where
  "fdiv (Fin a) (Fin b) =
     (if b \<noteq> 0 then Fin (a / b) else if a = 0 then NaN else if 0 < a then PInf else NInf)"
| "fdiv NaN y = NaN"
| "fdiv x NaN = NaN"
| "fdiv (Fin a) PInf = Fin 0"
| "fdiv (Fin a) NInf = Fin 0"
| "fdiv PInf (Fin b) = (if 0 \<le> b then PInf else NInf)"
| "fdiv NInf (Fin b) = (if 0 \<le> b then NInf else PInf)"
| "fdiv PInf PInf = NaN"
| "fdiv PInf NInf = NaN"
| "fdiv NInf PInf = NaN"
| "fdiv NInf NInf = NaN"

text \<open>\<open>x ** (-0.5)\<close>, \<open>reciprocal(x)\<close> and \<open>sqrt(x)\<close>.\<close>

fun pow_neg_half :: "fl \<Rightarrow> fl" where
  "pow_neg_half (Fin a) = (if 0 < a then Fin (a powr (- (1 / 2))) else if a = 0 then PInf else NaN)"
| "pow_neg_half PInf = Fin 0"
| "pow_neg_half NInf = Fin 0"
| "pow_neg_half NaN = NaN"

fun reciprocal :: "fl \<Rightarrow> fl" where
  "reciprocal (Fin a) = (if a = 0 then PInf else Fin (1 / a))"
| "reciprocal PInf = Fin 0"
| "reciprocal NInf = Fin 0"
| "reciprocal NaN = NaN"

fun fsqrt :: "fl \<Rightarrow> fl" where
  "fsqrt (Fin a) = (if 0 \<le> a then Fin (sqrt a) else NaN)"
| "fsqrt PInf = PInf"
| "fsqrt NInf = NaN"
| "fsqrt NaN = NaN"

text \<open>The sum of a list of values; the sum of no value is \<open>0.0\<close>.\<close>

fun fsum :: "fl list \<Rightarrow> fl" where
  "fsum [] = Fin 0"
| "fsum (x # xs) = x + fsum xs"

text \<open>A boolean as a factor: \<open>True\<close> is \<open>1.0\<close> and \<open>False\<close> is \<open>0.0\<close>.\<close>

definition of_bool_fl :: "bool \<Rightarrow> fl" where
  "of_bool_fl b = (if b then Fin 1 else Fin 0)"

subsection \<open>Exceptions\<close>

datatype exn =
  InvalidType | ValueError | IndexError | TypeError | ZeroDivisionError
  | RuntimeError | AxisError

definition ebind :: "exn + 'a \<Rightarrow> ('a \<Rightarrow> exn + 'b) \<Rightarrow> exn + 'b" where
  "ebind m f = (case m of Inl e \<Rightarrow> Inl e | Inr v \<Rightarrow> f v)"

subsection \<open>N-dimensional arrays\<close>

text \<open>
  An array is its shape and its elements, read at a multi-index. Only the elements at
  the valid indices of the shape are part of the array.
\<close>

record 'a ndarray =
  shape :: "nat list"
  elt :: "nat list \<Rightarrow> 'a"

definition ndim :: "('a, 'm) ndarray_scheme \<Rightarrow> nat" where
  "ndim a = length (shape a)"

definition size_of :: "('a, 'm) ndarray_scheme \<Rightarrow> nat" where
  "size_of a = prod_list (shape a)"

definition valid_index :: "nat list \<Rightarrow> nat list \<Rightarrow> bool" where
  "valid_index s idx = list_all2 (<) idx s"

text \<open>All valid indices of a shape, in row-major (C) order.\<close>

definition indices :: "nat list \<Rightarrow> nat list list" where
  "indices s = product_lists (map (\<lambda>n. [0..<n]) s)"

text \<open>An array given by its elements in row-major order (\<open>reshape\<close> of a flat list).\<close>

fun ravel_index :: "nat list \<Rightarrow> nat list \<Rightarrow> nat" where
  "ravel_index (n # ns) (i # is) = i * prod_list ns + ravel_index ns is"
| "ravel_index s idx = 0"

definition of_flat :: "nat list \<Rightarrow> 'a list \<Rightarrow> 'a ndarray" where
  "of_flat s xs = \<lparr>shape = s, elt = (\<lambda>idx. xs ! ravel_index s idx)\<rparr>"

definition zeros :: "nat list \<Rightarrow> fl ndarray" where
  "zeros s = \<lparr>shape = s, elt = (\<lambda>idx. Fin 0)\<rparr>"

definition zeros_like :: "(fl, 'm) ndarray_scheme \<Rightarrow> fl ndarray" where
  "zeros_like a = zeros (shape a)"

subsubsection \<open>Broadcasting\<close>

definition pad_shape :: "nat \<Rightarrow> nat list \<Rightarrow> nat list" where
  "pad_shape n s = replicate (n - length s) 1 @ s"

definition broadcast_shapes :: "nat list \<Rightarrow> nat list \<Rightarrow> nat list option" where
  "broadcast_shapes s1 s2 =
     (let n = max (length s1) (length s2); p1 = pad_shape n s1; p2 = pad_shape n s2
      in if list_all2 (\<lambda>a b. a = b \<or> a = 1 \<or> b = 1) p1 p2
         then Some (map2 (\<lambda>a b. if a = 1 then b else a) p1 p2) else None)"

text \<open>The index of the source element that a broadcast array shows at \<open>idx\<close>.\<close>

definition bcast_index :: "nat list \<Rightarrow> nat list \<Rightarrow> nat list" where
  "bcast_index s idx = map2 (\<lambda>d i. if d = 1 then 0 else i) s (drop (length idx - length s) idx)"

text \<open>\<open>xp.broadcast_to(a, s)\<close>: raises \<open>ValueError\<close> unless \<open>a\<close> broadcasts to exactly \<open>s\<close>.\<close>

definition broadcast_to :: "('a, 'm) ndarray_scheme \<Rightarrow> nat list \<Rightarrow> exn + 'a ndarray" where
  "broadcast_to a s =
     (if length (shape a) \<le> length s \<and>
         list_all2 (\<lambda>d t. d = t \<or> d = 1) (pad_shape (length s) (shape a)) s
      then Inr \<lparr>shape = s, elt = (\<lambda>idx. elt a (bcast_index (shape a) idx))\<rparr>
      else Inl ValueError)"

text \<open>An elementwise binary operation \<open>a op b\<close> with broadcasting.\<close>

definition binop ::
  "('a \<Rightarrow> 'b \<Rightarrow> 'c) \<Rightarrow> ('a, 'm) ndarray_scheme \<Rightarrow> ('b, 'n) ndarray_scheme \<Rightarrow> exn + 'c ndarray" where
  "binop f a b =
     (case broadcast_shapes (shape a) (shape b) of
        None \<Rightarrow> Inl ValueError
      | Some s \<Rightarrow> Inr \<lparr>shape = s,
          elt = (\<lambda>idx. f (elt a (bcast_index (shape a) idx)) (elt b (bcast_index (shape b) idx)))\<rparr>)"

text \<open>
  An in-place operation \<open>a op= b\<close>: the broadcast shape has to be the shape of \<open>a\<close>
  (\<open>ValueError\<close> otherwise); the result is the new content of \<open>a\<close>.
\<close>

definition iop ::
  "('a \<Rightarrow> 'b \<Rightarrow> 'a) \<Rightarrow> 'a ndarray \<Rightarrow> ('b, 'n) ndarray_scheme \<Rightarrow> exn + 'a ndarray" where
  "iop f a b =
     (if broadcast_shapes (shape a) (shape b) = Some (shape a)
      then Inr \<lparr>shape = shape a, elt = (\<lambda>idx. f (elt a idx) (elt b (bcast_index (shape b) idx)))\<rparr>
      else Inl ValueError)"

text \<open>An operation between an array and a Python scalar.\<close>

definition map_array :: "('a \<Rightarrow> 'b) \<Rightarrow> ('a, 'm) ndarray_scheme \<Rightarrow> 'b ndarray" where
  "map_array f a = \<lparr>shape = shape a, elt = (\<lambda>idx. f (elt a idx))\<rparr>"

text \<open>
  Indexing with \<open>(None, Ellipsis) + (None,) * k\<close>: one new leading axis and \<open>k\<close> new
  trailing axes, all of length 1.
\<close>

definition expand :: "('a, 'm) ndarray_scheme \<Rightarrow> nat \<Rightarrow> 'a ndarray" where
  "expand a k =
     \<lparr>shape = 1 # shape a @ replicate k 1,
      elt = (\<lambda>idx. elt a (take (length (shape a)) (tl idx)))\<rparr>"

text \<open>
  \<open>a.sum(axis=axes)\<close> for a tuple of axes. \<open>merge_index\<close> puts the index \<open>ks\<close> of the
  kept axes and the index \<open>rs\<close> of the reduced axes back together.
\<close>

fun merge_index :: "bool list \<Rightarrow> nat list \<Rightarrow> nat list \<Rightarrow> nat list" where
  "merge_index [] ks rs = []"
| "merge_index (True # fs) ks rs = (case rs of [] \<Rightarrow> [] | r # rs' \<Rightarrow> r # merge_index fs ks rs')"
| "merge_index (False # fs) ks rs = (case ks of [] \<Rightarrow> [] | k # ks' \<Rightarrow> k # merge_index fs ks' rs)"

definition sum_axes :: "(fl, 'm) ndarray_scheme \<Rightarrow> nat list \<Rightarrow> exn + fl ndarray" where
  "sum_axes a axes =
     (if \<not> (\<forall>i \<in> set axes. i < length (shape a)) then Inl AxisError
      else if \<not> distinct axes then Inl ValueError
      else
        let flags = map (\<lambda>i. i \<in> set axes) [0..<length (shape a)];
            kept = map fst (filter (\<lambda>p. \<not> snd p) (zip (shape a) flags));
            red = map fst (filter snd (zip (shape a) flags))
        in Inr \<lparr>shape = kept,
                elt = (\<lambda>idx. fsum (map (\<lambda>r. elt a (merge_index flags idx r)) (indices red)))\<rparr>)"

subsection \<open>Data types of arrays\<close>

datatype dtype = Float16 | Float32 | Float64 | Int32 | Int64 | Bool8

fun kind :: "dtype \<Rightarrow> char" where
  "kind Float16 = CHR ''f''"
| "kind Float32 = CHR ''f''"
| "kind Float64 = CHR ''f''"
| "kind Int32 = CHR ''i''"
| "kind Int64 = CHR ''i''"
| "kind Bool8 = CHR ''b''"

text \<open>
  An input array has a data type. The arrays that NumPy computes from the inputs are
  modelled without one: the source reads \<open>dtype\<close> of its inputs only.
\<close>

record 'a tensor = "'a ndarray" +
  dtype :: dtype

datatype array_module = Numpy | Cupy

subsection \<open>Helpers of the module\<close>

text \<open>\<^verbatim>\<open>_BNMode.__init__\<close>\<close>

record bn_mode =
  is_for_conv2d :: bool
  is_for_linear :: bool
  cudnn_dim_ok :: bool
  cudnn_dtype_ok :: bool

definition BNMode :: "fl tensor \<Rightarrow> fl tensor \<Rightarrow> bn_mode" where
  "BNMode x gamma =
     (let is_gamma_1d = (ndim gamma = 1);
          conv2d = (ndim x = 4 \<and> is_gamma_1d);
          linear = (ndim x = 2 \<and> is_gamma_1d)
      in \<lparr>is_for_conv2d = conv2d, is_for_linear = linear,
          cudnn_dim_ok = (conv2d \<or> linear),
          cudnn_dtype_ok = (conv2d \<or> dtype x \<noteq> Float16)\<rparr>)"

text \<open>\<^verbatim>\<open>_x_hat\<close>: \<open>x_mu = x - mean; x_mu *= inv_std\<close>\<close>

definition x_hat_of :: "(fl, 'm) ndarray_scheme \<Rightarrow> fl ndarray \<Rightarrow> fl ndarray \<Rightarrow> exn + fl ndarray" where
  "x_hat_of x mean inv_std =
     ebind (binop (\<lambda>a b. a - b) x mean) (\<lambda>x_mu. iop (\<lambda>a b. a * b) x_mu inv_std)"

text \<open>
  A CUDA elementwise kernel: the arguments are broadcast against each other and the
  body is evaluated at every index of the common shape.
\<close>

fun broadcast_all :: "nat list list \<Rightarrow> nat list option" where
  "broadcast_all [] = Some []"
| "broadcast_all (s # ss) =
     (case broadcast_all ss of None \<Rightarrow> None | Some t \<Rightarrow> broadcast_shapes s t)"

definition elementwise :: "('a list \<Rightarrow> 'b) \<Rightarrow> 'a ndarray list \<Rightarrow> exn + 'b ndarray" where
  "elementwise f args =
     (case broadcast_all (map shape args) of
        None \<Rightarrow> Inl ValueError
      | Some s \<Rightarrow> Inr \<lparr>shape = s,
          elt = (\<lambda>idx. f (map (\<lambda>a. elt a (bcast_index (shape a) idx)) args))\<rparr>)"

text \<open>
  \<^verbatim>\<open>_apply_bn_fwd\<close>. With NumPy: \<open>x_hat = _x_hat(x, mean, inv_std); y = gamma * x_hat;
  y += beta\<close>. Otherwise the kernel \<open>y = gamma * (x - mean) * inv_std + beta\<close>.
\<close>

definition apply_bn_fwd ::
  "array_module \<Rightarrow> (fl, 'm) ndarray_scheme \<Rightarrow> fl ndarray \<Rightarrow> fl ndarray \<Rightarrow> fl ndarray \<Rightarrow> fl ndarray
     \<Rightarrow> exn + fl ndarray" where
  "apply_bn_fwd xp x mean inv_std gamma beta =
     (if xp = Numpy then
        ebind (x_hat_of x mean inv_std) (\<lambda>x_hat.
        ebind (binop (\<lambda>a b. a * b) gamma x_hat) (\<lambda>y.
        iop (\<lambda>a b. a + b) y beta))
      else
        elementwise
          (\<lambda>v. case v of [x', mean', inv_std', gamma', beta'] \<Rightarrow>
                  gamma' * (x' - mean') * inv_std' + beta' | _ \<Rightarrow> NaN)
          [ndarray.truncate x, mean, inv_std, gamma, beta])"

subsection \<open>FixedBatchNormalization\<close>

record fixed_batch_normalization =
  f_eps :: fl
  f_expander :: "nat option"
  f_axis :: "nat list option"
  f_inv_std :: "fl ndarray option"
  f_inv_var :: "fl ndarray option"

text \<open>\<^verbatim>\<open>FixedBatchNormalization.__init__\<close>; \<open>inv_std\<close> and \<open>inv_var\<close> are class attributes.\<close>

definition FixedBatchNormalization_init :: "fl \<Rightarrow> fixed_batch_normalization" where
  "FixedBatchNormalization_init eps =
     \<lparr>f_eps = eps, f_expander = None, f_axis = None, f_inv_std = None, f_inv_var = None\<rparr>"

text \<open>\<^verbatim>\<open>FixedBatchNormalization.check_type_forward\<close>: whether every expectation holds.\<close>

definition fixed_check_type_forward ::
  "fl tensor \<Rightarrow> fl tensor \<Rightarrow> fl tensor \<Rightarrow> fl tensor \<Rightarrow> fl tensor \<Rightarrow> bool" where
  "fixed_check_type_forward x gamma beta mean var =
     (let M = ndim gamma in
        kind (dtype x) = CHR ''f'' \<and>
        ndim x \<ge> ndim gamma + 1 \<and>
        take M (drop 1 (shape x)) = shape gamma \<and>
        dtype gamma = dtype x \<and>
        dtype beta = dtype x \<and>
        shape gamma = shape beta \<and>
        dtype mean = dtype x \<and>
        shape mean = shape gamma \<and>
        dtype var = dtype x \<and>
        shape var = shape gamma)"

text \<open>\<^verbatim>\<open>FixedBatchNormalization.forward\<close>: the output and the updated object.\<close>

definition fixed_forward ::
  "array_module \<Rightarrow> fixed_batch_normalization \<Rightarrow> fl tensor \<Rightarrow> fl tensor \<Rightarrow> fl tensor \<Rightarrow> fl tensor
     \<Rightarrow> fl tensor \<Rightarrow> exn + (fl ndarray \<times> fixed_batch_normalization)" where
  "fixed_forward xp self x gamma beta mean var =
     (let head_ndim = ndim gamma + 1;
          expander = ndim x - head_ndim;
          axis = 0 # [head_ndim..<ndim x];
          mode = BNMode x gamma;
          gamma' = expand gamma expander;
          beta' = expand beta expander;
          var' = map_array (\<lambda>v. v + f_eps self) var;
          inv_var = map_array reciprocal var';
          inv_std = map_array fsqrt inv_var
      in ebind (apply_bn_fwd xp x (expand mean expander) (expand inv_std expander) gamma' beta')
           (\<lambda>y. Inr (y, self\<lparr>f_expander := Some expander, f_axis := Some axis,
                              f_inv_var := Some inv_var, f_inv_std := Some inv_std\<rparr>)))"

text \<open>
  \<^verbatim>\<open>FunctionNode.apply\<close> of Chainer, as far as it concerns this module: the types of the
  inputs are checked (\<open>InvalidType\<close> is raised when an expectation fails), then
  \<open>forward\<close> runs.
\<close>

definition fixed_apply ::
  "array_module \<Rightarrow> fixed_batch_normalization \<Rightarrow> fl tensor \<Rightarrow> fl tensor \<Rightarrow> fl tensor \<Rightarrow> fl tensor
     \<Rightarrow> fl tensor \<Rightarrow> exn + (fl ndarray \<times> fixed_batch_normalization)" where
  "fixed_apply xp self x gamma beta mean var =
     (if fixed_check_type_forward x gamma beta mean var
      then fixed_forward xp self x gamma beta mean var
      else Inl InvalidType)"

text \<open>\<^verbatim>\<open>fixed_batch_normalization(x, gamma, beta, mean, var, eps)\<close>\<close>

definition fixed_batch_normalization_fn ::
  "array_module \<Rightarrow> fl tensor \<Rightarrow> fl tensor \<Rightarrow> fl tensor \<Rightarrow> fl tensor \<Rightarrow> fl tensor \<Rightarrow> fl
     \<Rightarrow> exn + fl ndarray" where
  "fixed_batch_normalization_fn xp x gamma beta mean var eps =
     ebind (fixed_apply xp (FixedBatchNormalization_init eps) x gamma beta mean var)
       (\<lambda>r. Inr (fst r))"

subsection \<open>FixedBatchNormalizationGrad\<close>

record fixed_batch_normalization_grad =
  fg_eps :: fl
  fg_expander :: nat
  fg_axis :: "nat list"
  fg_inv_std :: "fl ndarray option"
  fg_inv_var :: "fl ndarray option"

text \<open>
  \<^verbatim>\<open>FixedBatchNormalizationGrad.forward\<close>: returns \<open>(gx, ggamma, gbeta, gmean, gvar)\<close>.
\<close>

definition fixed_grad_forward ::
  "fixed_batch_normalization_grad \<Rightarrow> fl tensor \<Rightarrow> fl tensor \<Rightarrow> fl tensor \<Rightarrow> fl tensor \<Rightarrow> fl tensor
     \<Rightarrow> exn + (fl ndarray \<times> fl ndarray \<times> fl ndarray \<times> fl ndarray \<times> fl ndarray)" where
  "fixed_grad_forward self x gamma mean var gy =
     (let expander = fg_expander self;
          (inv_var, inv_std) =
            (case (fg_inv_std self, fg_inv_var self) of
               (Some s, Some v) \<Rightarrow> (v, s)
             | _ \<Rightarrow> (let iv = map_array reciprocal (map_array (\<lambda>v. v + fg_eps self) var)
                    in (iv, map_array fsqrt iv)))
      in ebind (binop (\<lambda>a b. a * b) gamma inv_std) (\<lambda>gamma_over_std.
         ebind (x_hat_of x (expand mean expander) (expand inv_std expander)) (\<lambda>x_hat.
         ebind (binop (\<lambda>a b. a * b) (expand gamma_over_std expander) gy) (\<lambda>gx.
         ebind (sum_axes gy (fg_axis self)) (\<lambda>gbeta.
         ebind (binop (\<lambda>a b. a * b) x_hat gy) (\<lambda>xg.
         ebind (sum_axes xg (fg_axis self)) (\<lambda>ggamma.
         ebind (binop (\<lambda>a b. a * b) (map_array uminus gamma_over_std) gbeta) (\<lambda>gmean.
         ebind (binop (\<lambda>a b. a * b) (map_array (\<lambda>g. Fin (- (1 / 2)) * g) gamma) inv_var) (\<lambda>t.
         ebind (binop (\<lambda>a b. a * b) t ggamma) (\<lambda>gvar.
         Inr (gx, ggamma, gbeta, gmean, gvar)))))))))))"

text \<open>
  \<^verbatim>\<open>FixedBatchNormalization.backward\<close>. Its first statement unpacks
  \<open>self.get_retained_inputs()\<close>, which is the empty tuple when \<open>forward\<close> has not run
  (recognised here by \<open>expander\<close> and \<open>axis\<close> not being set): \<open>ValueError\<close>. After
  \<open>forward\<close> the retained inputs are \<open>x\<close>, \<open>gamma\<close>, \<open>mean\<close> and \<open>var\<close>.
\<close>

definition fixed_backward ::
  "fixed_batch_normalization \<Rightarrow> fl tensor \<Rightarrow> fl tensor \<Rightarrow> fl tensor \<Rightarrow> fl tensor \<Rightarrow> fl tensor
     \<Rightarrow> exn + (fl ndarray \<times> fl ndarray \<times> fl ndarray \<times> fl ndarray \<times> fl ndarray)" where
  "fixed_backward self x gamma mean var gy =
     (case (f_expander self, f_axis self) of
        (Some k, Some ax) \<Rightarrow>
          fixed_grad_forward
            \<lparr>fg_eps = f_eps self, fg_expander = k, fg_axis = ax,
             fg_inv_std = f_inv_std self, fg_inv_var = f_inv_var self\<rparr> x gamma mean var gy
      | _ \<Rightarrow> Inl ValueError)"

subsection \<open>Selecting the active elements\<close>

text \<open>\<open>a.transpose(0, 2, 1)\<close>: \<open>ValueError\<close> unless \<open>a\<close> has three axes.\<close>

definition transpose_0_2_1 :: "('a, 'm) ndarray_scheme \<Rightarrow> exn + 'a ndarray" where
  "transpose_0_2_1 a =
     (if ndim a = 3
      then Inr \<lparr>shape = [shape a ! 0, shape a ! 2, shape a ! 1],
                elt = (\<lambda>idx. elt a [idx ! 0, idx ! 2, idx ! 1])\<rparr>
      else Inl ValueError)"

text \<open>
  \<open>a[m]\<close> for a boolean array \<open>m\<close>: the shape of \<open>m\<close> has to be the leading part of the
  shape of \<open>a\<close> (\<open>IndexError\<close> otherwise); the selected elements in row-major order.
  \<open>a[None]\<close> only adds an axis and keeps every element.
\<close>

definition getitem_mask :: "'a ndarray \<Rightarrow> bool ndarray option \<Rightarrow> exn + 'a list" where
  "getitem_mask a mo =
     (case mo of
        None \<Rightarrow> Inr (map (elt a) (indices (shape a)))
      | Some m \<Rightarrow>
          if take (length (shape m)) (shape a) = shape m
          then Inr (map (elt a)
                 (filter (\<lambda>idx. elt m (take (length (shape m)) idx)) (indices (shape a))))
          else Inl IndexError)"

text \<open>\<open>v.reshape(-1, c)\<close> of a flat array: \<open>ValueError\<close> unless \<open>c\<close> divides the size.\<close>

definition reshape_rows :: "'a list \<Rightarrow> nat \<Rightarrow> exn + 'a ndarray" where
  "reshape_rows xs c =
     (if c = 0 \<or> length xs mod c \<noteq> 0 then Inl ValueError
      else Inr (of_flat [length xs div c, c] xs))"

text \<open>
  Reductions along axis 0, \<open>a.sum(axis=0)\<close>, \<open>a.mean(axis=0)\<close> and \<open>a.var(axis=0)\<close>;
  the source applies them to the two-dimensional result of \<open>reshape(-1, c)\<close> only.
  The mean and the variance of no row are \<open>nan\<close> (\<open>0.0 / 0\<close>).
\<close>

definition column :: "fl ndarray \<Rightarrow> nat list \<Rightarrow> fl list" where
  "column a idx = map (\<lambda>r. elt a (r # idx)) [0..<shape a ! 0]"

definition sum_axis0 :: "fl ndarray \<Rightarrow> fl ndarray" where
  "sum_axis0 a = \<lparr>shape = tl (shape a), elt = (\<lambda>idx. fsum (column a idx))\<rparr>"

definition mean_axis0 :: "fl ndarray \<Rightarrow> fl ndarray" where
  "mean_axis0 a =
     \<lparr>shape = tl (shape a),
      elt = (\<lambda>idx. fdiv (fsum (column a idx)) (Fin (real (shape a ! 0))))\<rparr>"

definition var_axis0 :: "fl ndarray \<Rightarrow> fl ndarray" where
  "var_axis0 a =
     \<lparr>shape = tl (shape a),
      elt = (\<lambda>idx.
        let mu = elt (mean_axis0 a) idx
        in fdiv (fsum (map (\<lambda>v. (v - mu) * (v - mu)) (column a idx)))
                (Fin (real (shape a ! 0))))\<rparr>"

subsection \<open>The caller's arrays\<close>

text \<open>
  The running statistics are arrays of the caller that \<open>forward\<close> updates in place.
  They live in a store; a reference is a position in it, and a new array is put at the
  end. The arrays in the store are floating-point arrays.
\<close>

type_synonym heap = "fl ndarray list"

text \<open>\<open>r *= d\<close> for a Python float \<open>d\<close> and \<open>r += t\<close> for an array \<open>t\<close>; \<open>r\<close> may be \<open>None\<close>.\<close>

definition imul_scalar :: "nat option \<Rightarrow> fl \<Rightarrow> heap \<Rightarrow> (exn + unit) \<times> heap" where
  "imul_scalar r d h =
     (case r of
        None \<Rightarrow> (Inl TypeError, h)
      | Some a \<Rightarrow> (Inr (), h[a := map_array (\<lambda>v. v * d) (h ! a)]))"

definition iadd_array :: "nat option \<Rightarrow> fl ndarray \<Rightarrow> heap \<Rightarrow> (exn + unit) \<times> heap" where
  "iadd_array r t h =
     (case r of
        None \<Rightarrow> (Inl TypeError, h)
      | Some a \<Rightarrow>
          (case iop (\<lambda>v w. v + w) (h ! a) t of
             Inl e \<Rightarrow> (Inl e, h)
           | Inr v \<Rightarrow> (Inr (), h[a := v])))"

definition hbind ::
  "(heap \<Rightarrow> (exn + 'a) \<times> heap) \<Rightarrow> ('a \<Rightarrow> heap \<Rightarrow> (exn + 'b) \<times> heap) \<Rightarrow> heap \<Rightarrow> (exn + 'b) \<times> heap" where
  "hbind m f h = (case m h of (Inl e, h') \<Rightarrow> (Inl e, h') | (Inr v, h') \<Rightarrow> f v h')"

subsection \<open>BatchNormalization\<close>

text \<open>
  The object. \<open>mean\<close> and \<open>inv_std\<close> are \<open>None\<close> in the class; \<open>mode\<close>, \<open>expander\<close>
  and \<open>axis\<close> do not exist before \<open>forward\<close> sets them (\<open>None\<close> here). The mask is a
  boolean array or \<open>None\<close>.
\<close>

record batch_normalization =
  running_mean :: "nat option"
  running_var :: "nat option"
  active_len :: int
  mask :: "bool ndarray option"
  orig_mask :: "bool ndarray option"
  eps :: fl
  decay :: fl
  mean :: "fl ndarray option"
  inv_std :: "fl ndarray option"
  mode :: "bn_mode option"
  expander :: "nat option"
  axis :: "nat list option"

text \<open>\<open>eps < 1e-5\<close> on Python floats.\<close>

fun fl_less :: "fl \<Rightarrow> real \<Rightarrow> bool" where
  "fl_less (Fin a) b = (a < b)"
| "fl_less NInf b = True"
| "fl_less PInf b = False"
| "fl_less NaN b = False"

text \<open>
  \<^verbatim>\<open>BatchNormalization.__init__\<close>; \<open>use_cudnn\<close> is the value of
  \<open>chainer.should_use_cudnn('>=auto')\<close>.
\<close>

definition BatchNormalization_init ::
  "bool \<Rightarrow> fl \<Rightarrow> nat option \<Rightarrow> nat option \<Rightarrow> fl \<Rightarrow> int \<Rightarrow> bool ndarray option
     \<Rightarrow> exn + batch_normalization" where
  "BatchNormalization_init use_cudnn eps' mean' var' decay' active_len' mask' =
     (if use_cudnn \<and> fl_less eps' (1 / 100000) then Inl RuntimeError
      else Inr \<lparr>running_mean = mean', running_var = var', active_len = active_len',
                mask = mask', orig_mask = mask', eps = eps', decay = decay',
                mean = None, inv_std = None, mode = None, expander = None, axis = None\<rparr>)"

text \<open>\<^verbatim>\<open>BatchNormalization.check_type_forward\<close>: whether every expectation holds.\<close>

definition check_type_forward :: "fl tensor \<Rightarrow> fl tensor \<Rightarrow> fl tensor \<Rightarrow> bool" where
  "check_type_forward x gamma beta =
     (let M = ndim gamma in
        kind (dtype x) = CHR ''f'' \<and>
        ndim x \<ge> ndim gamma + 1 \<and>
        take M (drop 1 (shape x)) = shape gamma \<and>
        dtype gamma = dtype x \<and>
        dtype beta = dtype x \<and>
        shape gamma = shape beta)"

text \<open>
  Lines 68 to 75 of \<open>forward\<close>: the mask is broadcast to the shape of \<open>x\<close>, both are
  transposed, the active elements are put into rows of \<open>active_x.shape[2]\<close> elements,
  and the mean, the variance plus \<open>eps\<close> and its power \<open>-0.5\<close> are taken over the rows.
  A mask that is \<open>None\<close> becomes an array of objects, which cannot be an index.
  The result is \<open>(self.mask, active_x, self.mean, var, self.inv_std)\<close>.
\<close>

definition active_stats ::
  "fl \<Rightarrow> (fl, 'm) ndarray_scheme \<Rightarrow> bool ndarray option
     \<Rightarrow> exn + (bool ndarray \<times> fl ndarray \<times> fl ndarray \<times> fl ndarray \<times> fl ndarray)" where
  "active_stats eps' x mask' =
     (case mask' of
        None \<Rightarrow> ebind (transpose_0_2_1 x) (\<lambda>active_x. Inl IndexError)
      | Some mk \<Rightarrow>
          ebind (broadcast_to mk (shape x)) (\<lambda>mask1.
          ebind (transpose_0_2_1 x) (\<lambda>active_x.
          ebind (transpose_0_2_1 mask1) (\<lambda>mask2.
          ebind (broadcast_to mask2 (shape active_x)) (\<lambda>mask3.
          ebind (getitem_mask active_x (Some mask3)) (\<lambda>sel.
          ebind (reshape_rows sel (shape active_x ! 2)) (\<lambda>active_x'.
            let mean' = mean_axis0 active_x';
                var' = map_array (\<lambda>v. v + eps') (var_axis0 active_x');
                inv_std' = map_array pow_neg_half var'
            in Inr (mask3, active_x', mean', var', inv_std'))))))))"

text \<open>Lines 82 to 85 of \<open>forward\<close>: the update of the running statistics.\<close>

definition update_running ::
  "batch_normalization \<Rightarrow> fl \<Rightarrow> fl ndarray \<Rightarrow> fl ndarray \<Rightarrow> heap \<Rightarrow> (exn + unit) \<times> heap" where
  "update_running self adjust mean' var' =
     hbind (imul_scalar (running_mean self) (decay self)) (\<lambda>_.
     hbind (iadd_array (running_mean self) (map_array (\<lambda>v. (Fin 1 - decay self) * v) mean')) (\<lambda>_.
     hbind (imul_scalar (running_var self) (decay self)) (\<lambda>_.
     iadd_array (running_var self)
       (map_array (\<lambda>v. (Fin 1 - decay self) * adjust * v) var'))))"

text \<open>
  \<^verbatim>\<open>BatchNormalization.forward\<close>: the outcome (the output \<open>y\<close> and the updated object, or
  the exception raised) and the store afterwards.
\<close>

definition forward ::
  "array_module \<Rightarrow> batch_normalization \<Rightarrow> fl tensor \<Rightarrow> fl tensor \<Rightarrow> fl tensor \<Rightarrow> heap
     \<Rightarrow> (exn + (fl ndarray \<times> batch_normalization)) \<times> heap" where
  "forward xp self x gamma beta h =
     (let (self1, h1) =
            (if running_mean self = None
             then (self\<lparr>running_mean := Some (length h), running_var := Some (Suc (length h))\<rparr>,
                   h @ [zeros_like gamma, zeros_like gamma])
             else (self, h));
          head_ndim = ndim gamma + 1;
          k = ndim x - head_ndim;
          self2 = self1\<lparr>mode := Some (BNMode x gamma), expander := Some k,
                        axis := Some (0 # [head_ndim..<ndim x])\<rparr>;
          gamma' = expand gamma k;
          beta' = expand beta k
      in case active_stats (eps self2) x (mask self2) of
           Inl e \<Rightarrow> (Inl e, h1)
         | Inr (mask_t, active_x, mean', var', inv_std') \<Rightarrow>
             (case apply_bn_fwd xp x (expand mean' k) (expand inv_std' k) gamma' beta' of
                Inl e \<Rightarrow> (Inl e, h1)
              | Inr y \<Rightarrow>
                  if size_of gamma = 0 then (Inl ZeroDivisionError, h1)
                  else
                    let m = size_of active_x div size_of gamma;
                        adjust = Fin (real m / max (real m - 1) 1)
                    in (case update_running self2 adjust mean' var' h1 of
                          (Inl e, h2) \<Rightarrow> (Inl e, h2)
                        | (Inr u, h2) \<Rightarrow>
                            (case orig_mask self2 of
                               None \<Rightarrow> (Inl TypeError, h2)
                             | Some om \<Rightarrow>
                                 (case iop (\<lambda>a b. a * of_bool_fl b) y om of
                                    Inl e \<Rightarrow> (Inl e, h2)
                                  | Inr y' \<Rightarrow>
                                      (Inr (y', self2\<lparr>mask := Some mask_t, mean := Some mean',
                                                       inv_std := Some inv_std'\<rparr>), h2))))))"

text \<open>
  \<^verbatim>\<open>FunctionNode.apply\<close> of Chainer, as far as it concerns this module: the types of the
  inputs are checked (\<open>InvalidType\<close> is raised when an expectation fails), then
  \<open>forward\<close> runs.
\<close>

definition apply_fn ::
  "array_module \<Rightarrow> batch_normalization \<Rightarrow> fl tensor \<Rightarrow> fl tensor \<Rightarrow> fl tensor \<Rightarrow> heap
     \<Rightarrow> (exn + (fl ndarray \<times> batch_normalization)) \<times> heap" where
  "apply_fn xp self x gamma beta h =
     (if check_type_forward x gamma beta then forward xp self x gamma beta h
      else (Inl InvalidType, h))"

text \<open>
  \<^verbatim>\<open>batch_normalization(x, gamma, beta, eps=..., running_mean=..., running_var=...,
  decay=..., active_len=..., mask=...)\<close>
\<close>

definition batch_normalization_fn ::
  "array_module \<Rightarrow> bool \<Rightarrow> fl tensor \<Rightarrow> fl tensor \<Rightarrow> fl tensor \<Rightarrow> fl \<Rightarrow> nat option \<Rightarrow> nat option
     \<Rightarrow> fl \<Rightarrow> int \<Rightarrow> bool ndarray option \<Rightarrow> heap \<Rightarrow> (exn + fl ndarray) \<times> heap" where
  "batch_normalization_fn xp use_cudnn x gamma beta eps' running_mean' running_var' decay'
       active_len' mask' h =
     (case BatchNormalization_init use_cudnn eps' running_mean' running_var' decay' active_len' mask' of
        Inl e \<Rightarrow> (Inl e, h)
      | Inr self \<Rightarrow>
          (case apply_fn xp self x gamma beta h of
             (Inl e, h') \<Rightarrow> (Inl e, h')
           | (Inr r, h') \<Rightarrow> (Inr (fst r), h')))"

subsection \<open>BatchNormalizationGrad\<close>

record batch_normalization_grad =
  g_eps :: fl
  g_mode :: bn_mode
  g_expander :: nat
  g_axis :: "nat list"
  g_mean :: "fl ndarray option"
  g_inv_std :: "fl ndarray option"
  g_active_len :: int
  g_mask :: "bool ndarray option"
  g_orig_mask :: "bool ndarray option"

text \<open>
  \<^verbatim>\<open>BatchNormalizationGrad.__init__(eps, mode, expander, axis, mean, inv_std, active_len,
  orig_mask, mask)\<close>
\<close>

definition BatchNormalizationGrad_init ::
  "fl \<Rightarrow> bn_mode \<Rightarrow> nat \<Rightarrow> nat list \<Rightarrow> fl ndarray option \<Rightarrow> fl ndarray option \<Rightarrow> int
     \<Rightarrow> bool ndarray option \<Rightarrow> bool ndarray option \<Rightarrow> batch_normalization_grad" where
  "BatchNormalizationGrad_init eps' mode' expander' axis' mean' inv_std' active_len'
       orig_mask' mask' =
     \<lparr>g_eps = eps', g_mode = mode', g_expander = expander', g_axis = axis', g_mean = mean',
      g_inv_std = inv_std', g_active_len = active_len', g_mask = mask',
      g_orig_mask = orig_mask'\<rparr>"

text \<open>\<open>a[expander]\<close> where \<open>a\<close> may be \<open>None\<close>, which cannot be indexed.\<close>

definition expand_opt :: "fl ndarray option \<Rightarrow> nat \<Rightarrow> exn + fl ndarray" where
  "expand_opt a k = (case a of None \<Rightarrow> Inl TypeError | Some a' \<Rightarrow> Inr (expand a' k))"

text \<open>\<open>1. / (active_gy.size // gamma.size)\<close> on Python numbers.\<close>

definition inv_m_of :: "nat \<Rightarrow> nat \<Rightarrow> exn + fl" where
  "inv_m_of active_size gamma_size =
     (if gamma_size = 0 then Inl ZeroDivisionError
      else if active_size div gamma_size = 0 then Inl ZeroDivisionError
      else Inr (Fin (1 / real (active_size div gamma_size))))"

text \<open>The two ways \<open>gx\<close> is computed, with NumPy and with the kernel \<open>bn_bwd\<close>.\<close>

definition gx_numpy ::
  "fl tensor \<Rightarrow> fl ndarray \<Rightarrow> fl tensor \<Rightarrow> fl ndarray \<Rightarrow> fl ndarray \<Rightarrow> fl ndarray \<Rightarrow> fl \<Rightarrow> nat
     \<Rightarrow> exn + fl ndarray" where
  "gx_numpy gamma inv_std' gy x_hat ggamma gbeta inv_m expander' =
     ebind (binop (\<lambda>a b. a * b) gamma inv_std') (\<lambda>gis.
     ebind (binop (\<lambda>a b. a * b) x_hat (expand ggamma expander')) (\<lambda>t1.
     ebind (binop (\<lambda>a b. a + b) t1 (expand gbeta expander')) (\<lambda>t2.
     ebind (binop (\<lambda>a b. a - b) gy (map_array (\<lambda>v. v * inv_m) t2)) (\<lambda>t3.
     binop (\<lambda>a b. a * b) (expand gis expander') t3))))"

definition gx_kernel ::
  "fl tensor \<Rightarrow> fl ndarray \<Rightarrow> fl tensor \<Rightarrow> fl ndarray \<Rightarrow> fl ndarray \<Rightarrow> fl ndarray \<Rightarrow> fl \<Rightarrow> nat
     \<Rightarrow> exn + fl ndarray" where
  "gx_kernel gamma inv_std' gy x_hat ggamma gbeta inv_m expander' =
     elementwise
       (\<lambda>v. case v of [gy', x_hat', gamma', inv_std'', ggamma', gbeta'] \<Rightarrow>
               (gamma' * inv_std'') * (gy' - (x_hat' * ggamma' + gbeta') * inv_m)
             | _ \<Rightarrow> NaN)
       [ndarray.truncate gy, x_hat, expand gamma expander', expand inv_std' expander',
        expand ggamma expander', expand gbeta expander']"

text \<open>\<^verbatim>\<open>BatchNormalizationGrad.forward\<close>: returns \<open>(gx, ggamma, gbeta)\<close>.\<close>

definition grad_forward ::
  "array_module \<Rightarrow> batch_normalization_grad \<Rightarrow> fl tensor \<Rightarrow> fl tensor \<Rightarrow> fl tensor
     \<Rightarrow> exn + (fl ndarray \<times> fl ndarray \<times> fl ndarray)" where
  "grad_forward xp self x gamma gy =
     ebind (transpose_0_2_1 gy) (\<lambda>gy_t.
     ebind (getitem_mask gy_t (g_mask self)) (\<lambda>sel.
     ebind (reshape_rows sel (shape gy_t ! 2)) (\<lambda>active_gy.
     let expander' = g_expander self in
     ebind (inv_m_of (size_of active_gy) (size_of gamma)) (\<lambda>inv_m.
     let gbeta = sum_axis0 active_gy in
     ebind (expand_opt (g_mean self) expander') (\<lambda>mean_e.
     ebind (expand_opt (g_inv_std self) expander') (\<lambda>inv_std_e.
     ebind (x_hat_of x mean_e inv_std_e) (\<lambda>x_hat.
     ebind (transpose_0_2_1 x_hat) (\<lambda>x_hat_t.
     ebind (getitem_mask x_hat_t (g_mask self)) (\<lambda>sel'.
     ebind (reshape_rows sel' (shape active_gy ! 1)) (\<lambda>active_x_hat.
     ebind (binop (\<lambda>a b. a * b) active_gy active_x_hat) (\<lambda>prod.
     let ggamma = sum_axis0 prod in
     ebind (case g_inv_std self of None \<Rightarrow> Inl TypeError
            | Some inv_std' \<Rightarrow>
                if xp = Numpy then gx_numpy gamma inv_std' gy x_hat ggamma gbeta inv_m expander'
                else gx_kernel gamma inv_std' gy x_hat ggamma gbeta inv_m expander') (\<lambda>gx.
     ebind (case g_orig_mask self of None \<Rightarrow> Inl TypeError
            | Some om \<Rightarrow> iop (\<lambda>a b. a * of_bool_fl b) gx om) (\<lambda>gx'.
     Inr (gx', ggamma, gbeta))))))))))))))"

text \<open>
  \<^verbatim>\<open>BatchNormalization.backward\<close>. Its first statement unpacks
  \<open>self.get_retained_inputs()\<close>, which is the empty tuple when \<open>forward\<close> has not run
  (recognised here by \<open>mode\<close>, \<open>expander\<close> and \<open>axis\<close> not being set): \<open>ValueError\<close>.
  After \<open>forward\<close> the retained inputs are \<open>x\<close> and \<open>gamma\<close>.
\<close>

definition backward ::
  "array_module \<Rightarrow> batch_normalization \<Rightarrow> fl tensor \<Rightarrow> fl tensor \<Rightarrow> fl tensor
     \<Rightarrow> exn + (fl ndarray \<times> fl ndarray \<times> fl ndarray)" where
  "backward xp self x gamma gy =
     (case (mode self, expander self, axis self) of
        (Some md, Some k, Some ax) \<Rightarrow>
          grad_forward xp
            (BatchNormalizationGrad_init (eps self) md k ax (mean self) (inv_std self)
               (active_len self) (orig_mask self) (mask self)) x gamma gy
      | _ \<Rightarrow> Inl ValueError)"

subsection \<open>Derived notions and example inputs\<close>



definition raised :: "(exn + 'a) \<times> heap \<Rightarrow> bool" where
  "raised r = isl (fst r)"

text \<open>
  A batch of one sample with two channels and two positions,
  \<open>x = [[[1, 2], [3, 4]]]\<close>, with \<open>gamma = [1, 1]\<close> and \<open>beta = [0, 0]\<close>.
\<close>

definition ex_x :: "fl tensor" where
  "ex_x = \<lparr>shape = [1, 2, 2],
           elt = (\<lambda>idx. Fin (real (2 * (idx ! 1) + idx ! 2 + 1))), dtype = Float32\<rparr>"

definition ex_gamma :: "fl tensor" where
  "ex_gamma = \<lparr>shape = [2], elt = (\<lambda>idx. Fin 1), dtype = Float32\<rparr>"

definition ex_beta :: "fl tensor" where
  "ex_beta = \<lparr>shape = [2], elt = (\<lambda>idx. Fin 0), dtype = Float32\<rparr>"

text \<open>Masks: every position active, no position active, only position 0 active.\<close>

definition ex_mask_all :: "bool ndarray" where
  "ex_mask_all = \<lparr>shape = [1, 1, 2], elt = (\<lambda>idx. True)\<rparr>"



text \<open>An object as \<open>__init__\<close> makes it, with \<open>eps = 1\<close> and \<open>decay = 0.9\<close>.\<close>

definition ex_self :: "bool ndarray option \<Rightarrow> batch_normalization" where
  "ex_self mk =
     \<lparr>running_mean = None, running_var = None, active_len = 0, mask = mk, orig_mask = mk,
      eps = Fin 1, decay = Fin (9 / 10), mean = None, inv_std = None, mode = None,
      expander = None, axis = None\<rparr>"

text \<open>A \<open>beta\<close> of another shape than \<open>gamma\<close>, and a two-dimensional input.\<close>

definition ex_beta_bad :: "fl tensor" where
  "ex_beta_bad = \<lparr>shape = [3], elt = (\<lambda>idx. Fin 0), dtype = Float32\<rparr>"

definition ex_x_2d :: "fl tensor" where
  "ex_x_2d = \<lparr>shape = [1, 2], elt = (\<lambda>idx. Fin 1), dtype = Float32\<rparr>"

definition ex_grad :: batch_normalization_grad where
  "ex_grad =
     BatchNormalizationGrad_init (Fin 1) (BNMode ex_x ex_gamma) 1 [0, 2] None None 0
       (Some ex_mask_all) (Some ex_mask_all)"

text \<open>
  The channel part of an index of \<open>x\<close>: the \<open>m\<close> entries after the first, where \<open>m\<close> is
  the number of axes of \<open>gamma\<close>.
\<close>

definition channel_index :: "nat \<Rightarrow> nat list \<Rightarrow> nat list" where
  "channel_index m idx = take m (tl idx)"


text \<open>A \<open>gamma\<close> and a \<open>beta\<close> with two axes, of the shape \<open>x.shape[1:3]\<close> of \<open>ex_x\<close>.\<close>

definition ex_gamma_2d :: "fl tensor" where
  "ex_gamma_2d = \<lparr>shape = [2, 2], elt = (\<lambda>idx. Fin 1), dtype = Float32\<rparr>"

definition ex_beta_2d :: "fl tensor" where
  "ex_beta_2d = \<lparr>shape = [2, 2], elt = (\<lambda>idx. Fin 0), dtype = Float32\<rparr>"





section \<open>Properties\<close>

subsection \<open>Arithmetic of the idealised floating-point values\<close>

lemma fl_add_zero_left: "Fin 0 + x = x"
  by (cases x) simp_all

lemma fl_add_zero_right: "x + Fin 0 = x"
  by (cases x) simp_all


lemma fl_mult_one_left: "Fin 1 * x = x"
  by (cases x) simp_all



lemma fl_add_commute: "x + y = y + (x::fl)"
  by (cases x; cases y) simp_all

lemma fl_mult_commute: "x * y = y * (x::fl)"
  by (cases x; cases y) simp_all










lemma upt_small: "[0..<1] = [0]" "[0..<2] = [0, 1]" "[0..<3] = [0, 1, 2]"
  by (simp_all add: upt_rec)

subsection \<open>Exceptions propagate\<close>

lemma ebind_Inl [simp]: "ebind (Inl e) f = Inl e"
  by (simp add: ebind_def)

lemma ebind_Inr [simp]: "ebind (Inr v) f = f v"
  by (simp add: ebind_def)


lemma raised_iff: "raised r \<longleftrightarrow> (\<exists>e h. r = (Inl e, h))"
  by (cases r; cases "fst r") (auto simp: raised_def)

subsection \<open>Validation of the inputs\<close>

text \<open>
  Claim C7. In both variants a call whose inputs violate an expectation of
  \<open>check_type_forward\<close> raises the type-check error (Chainer's \<open>InvalidType\<close>, the
  specification's ShapeError) before \<open>forward\<close> runs, and the store is left as it was:
  when \<open>gamma\<close> and \<open>beta\<close> differ in shape, when \<open>x\<close> has fewer than
  \<open>gamma.ndim + 1\<close> axes, and when the data type of \<open>gamma\<close> or \<open>beta\<close> (in the fixed
  variant also of \<open>mean\<close> or \<open>var\<close>) differs from that of \<open>x\<close>.
\<close>

theorem type_check_rejects:
  "(shape gamma \<noteq> shape beta \<or> ndim x < ndim gamma + 1 \<or> dtype gamma \<noteq> dtype x \<or>
    dtype beta \<noteq> dtype x
      \<longrightarrow> apply_fn xp self x gamma beta h = (Inl InvalidType, h)) \<and>
   (shape gamma \<noteq> shape beta \<or> ndim x < ndim gamma + 1 \<or> dtype gamma \<noteq> dtype x \<or>
    dtype beta \<noteq> dtype x \<or> dtype mu \<noteq> dtype x \<or> dtype vr \<noteq> dtype x
      \<longrightarrow> fixed_apply xp fself x gamma beta mu vr = Inl InvalidType)"
  by (auto simp: apply_fn_def check_type_forward_def fixed_apply_def
      fixed_check_type_forward_def Let_def)

theorem type_check_rejects_witness:
  "apply_fn Numpy (ex_self (Some ex_mask_all)) ex_x ex_gamma ex_beta_bad [] = (Inl InvalidType, []) \<and>
   fixed_apply Numpy (FixedBatchNormalization_init (Fin 0)) ex_x ex_gamma ex_beta_bad ex_gamma ex_gamma
     = Inl InvalidType"
  using type_check_rejects [where gamma = ex_gamma and beta = ex_beta_bad and x = ex_x
      and xp = Numpy and self = "ex_self (Some ex_mask_all)" and h = "[]" and mu = ex_gamma
      and vr = ex_gamma and fself = "FixedBatchNormalization_init (Fin 0)"]
  by (simp add: ex_gamma_def ex_beta_bad_def)

subsection \<open>Inputs that are not three-dimensional\<close>

lemma transpose_fails: "ndim a \<noteq> 3 \<Longrightarrow> transpose_0_2_1 a = Inl ValueError"
  by (simp add: transpose_0_2_1_def)

lemma active_stats_fails: "ndim x \<noteq> 3 \<Longrightarrow> active_stats e x mk = Inl ValueError"
  by (cases mk; cases "broadcast_to (the mk) (shape x)")
     (auto simp: active_stats_def transpose_fails broadcast_to_def split: if_splits)

lemma forward_fails:
  assumes "ndim x \<noteq> 3"
  shows "fst (forward xp self x gamma beta h) = Inl ValueError"
  unfolding forward_def Let_def
  by (simp add: active_stats_fails [OF assms] split: prod.splits)

text \<open>
  The definitions that a call on given arrays unfolds to.
\<close>

lemmas eval_defs =
  batch_normalization_fn_def BatchNormalization_init_def apply_fn_def check_type_forward_def
  ndim_def forward_def Let_def active_stats_def ebind_def broadcast_to_def pad_shape_def
  transpose_0_2_1_def getitem_mask_def indices_def reshape_rows_def upt_small apply_bn_fwd_def
  x_hat_of_def binop_def iop_def broadcast_shapes_def expand_def mean_axis0_def var_axis0_def
  map_array_def size_of_def of_flat_def update_running_def hbind_def imul_scalar_def
  iadd_array_def zeros_like_def zeros_def column_def bcast_index_def of_bool_fl_def

lemma two_dim_gamma_returns:
  "\<not> raised (apply_fn Numpy (ex_self (Some ex_mask_all)) ex_x ex_gamma_2d ex_beta_2d [])"
  by (simp add: raised_def eval_defs ex_self_def ex_x_def ex_gamma_2d_def ex_beta_2d_def
      ex_mask_all_def)

text \<open>
  Claim C9, as stated, ends with: only three-dimensional inputs with a one-dimensional
  \<open>gamma\<close> are supported. That part fails: for \<open>x\<close> of shape \<open>(1, 2, 2)\<close> with \<open>gamma\<close>
  and \<open>beta\<close> of shape \<open>(2, 2)\<close> the type check passes and the call returns an output.
\<close>

theorem rank_three_only_counterexample:
  "ndim ex_x = 3 \<and> ndim ex_gamma_2d = 2 \<and> check_type_forward ex_x ex_gamma_2d ex_beta_2d \<and>
   \<not> raised (apply_fn Numpy (ex_self (Some ex_mask_all)) ex_x ex_gamma_2d ex_beta_2d [])"
  using two_dim_gamma_returns
  by (simp add: check_type_forward_def ndim_def ex_x_def ex_gamma_2d_def ex_beta_2d_def)

text \<open>
  Claim C9, amended. The type check accepts any \<open>x\<close> with at least \<open>gamma.ndim + 1\<close>
  axes, but \<open>forward\<close> transposes \<open>x\<close> and the mask with the axes \<open>(0, 2, 1)\<close>: for
  every \<open>x\<close> that does not have exactly three axes the masked forward call raises an
  exception and returns no output (\<open>ValueError\<close> when the type check has passed,
  \<open>InvalidType\<close> otherwise). In the same way the gradient computation raises
  \<open>ValueError\<close> for every \<open>gy\<close> that does not have three axes. Nothing is said of the
  number of axes of \<open>gamma\<close>.
\<close>

theorem rank_three_only:
  "(ndim x \<noteq> 3 \<longrightarrow>
      fst (apply_fn xp self x gamma beta h)
        = Inl (if check_type_forward x gamma beta then ValueError else InvalidType) \<and>
      raised (apply_fn xp self x gamma beta h) \<and>
      raised (batch_normalization_fn xp cud x gamma beta e rm rv d al mk h)) \<and>
   (ndim gy \<noteq> 3 \<longrightarrow> grad_forward xp g x' gamma' gy = Inl ValueError)"
proof (intro conjI impI)
  assume n: "ndim x \<noteq> 3"
  show f: "fst (apply_fn xp s x gamma beta h)
        = Inl (if check_type_forward x gamma beta then ValueError else InvalidType)" for s
    using forward_fails [OF n] by (simp add: apply_fn_def)
  have a: "raised (apply_fn xp s x gamma beta h)" for s
    using f [of s] by (simp add: raised_def)
  show "raised (apply_fn xp self x gamma beta h)"
    by (rule a)
  show "raised (batch_normalization_fn xp cud x gamma beta e rm rv d al mk h)"
  proof (cases "BatchNormalization_init cud e rm rv d al mk")
    case (Inl err)
    then show ?thesis
      by (simp add: batch_normalization_fn_def raised_iff)
  next
    case (Inr s)
    from a [of s] obtain err h' where "apply_fn xp s x gamma beta h = (Inl err, h')"
      unfolding raised_iff by blast
    with Inr show ?thesis
      by (simp add: batch_normalization_fn_def raised_iff)
  qed
next
  assume "ndim gy \<noteq> 3"
  then show "grad_forward xp g x' gamma' gy = Inl ValueError"
    by (simp add: grad_forward_def transpose_fails)
qed

theorem rank_three_only_witness:
  "fst (apply_fn Numpy (ex_self (Some ex_mask_all)) ex_x_2d ex_gamma ex_beta []) = Inl ValueError \<and>
   raised (apply_fn Numpy (ex_self (Some ex_mask_all)) ex_x_2d ex_gamma ex_beta []) \<and>
   raised (batch_normalization_fn Numpy False ex_x_2d ex_gamma ex_beta (Fin 1) None None
     (Fin (9 / 10)) 0 (Some ex_mask_all) []) \<and>
   grad_forward Numpy ex_grad ex_x ex_gamma ex_x_2d = Inl ValueError"
  using rank_three_only [where x = ex_x_2d and xp = Numpy and self = "ex_self (Some ex_mask_all)"
      and gamma = ex_gamma and beta = ex_beta and h = "[]" and cud = False and e = "Fin 1"
      and rm = None and rv = None and d = "Fin (9 / 10)" and al = 0 and mk = "Some ex_mask_all"
      and gy = ex_x_2d and g = ex_grad and x' = ex_x and gamma' = ex_gamma]
  by (simp add: ex_x_2d_def ex_gamma_def ex_beta_def ndim_def check_type_forward_def)

subsection \<open>Shapes, indices and broadcasting\<close>






lemma pad_shape_same [simp]: "pad_shape (length s) s = s"
  by (simp add: pad_shape_def)





lemma valid_index_length: "valid_index s idx \<Longrightarrow> length idx = length s"
  by (simp add: valid_index_def list_all2_lengthD)

lemma map2_bcast_valid:
  "list_all2 (<) idx s \<Longrightarrow> map2 (\<lambda>d i. if d = Suc 0 then 0 else i) s idx = idx"
  by (induction idx s rule: list_all2_induct) auto


lemma valid_index_Cons:
  "valid_index (n # s) idx \<longleftrightarrow> (\<exists>i is. idx = i # is \<and> i < n \<and> valid_index s is)"
  by (cases idx) (simp_all add: valid_index_def)

lemma valid_index_Nil [simp]: "valid_index [] idx \<longleftrightarrow> idx = []"
  by (simp add: valid_index_def)

lemma valid_index_append:
  "valid_index (s @ t) idx \<longleftrightarrow>
     (\<exists>is js. idx = is @ js \<and> valid_index s is \<and> valid_index t js)"
  unfolding valid_index_def by (simp add: list_all2_append2) (metis list_all2_lengthD)

lemma channel_of_expanded:
  assumes "valid_index (B # cs @ sp) idx"
  shows "take (length cs) (tl (bcast_index (Suc 0 # cs @ replicate (length sp) (Suc 0)) idx))
           = channel_index (length cs) idx"
proof -
  from assms obtain b ci si where idx: "idx = b # ci @ si" and ci: "valid_index cs ci"
    and si: "valid_index sp si"
    by (auto simp: valid_index_Cons valid_index_append)
  have l: "length ci = length cs" "length si = length sp"
    using ci si by (simp_all add: valid_index_length)
  have "map2 (\<lambda>d i. if d = Suc 0 then 0 else i) cs ci = ci"
    using ci by (simp add: map2_bcast_valid valid_index_def)
  then show ?thesis
    using l by (simp add: idx bcast_index_def channel_index_def)
qed

lemma elt_expand_bcast:
  assumes "valid_index (B # shape a @ sp) idx"
  shows "elt (expand a (length sp)) (bcast_index (shape (expand a (length sp))) idx)
           = elt a (channel_index (length (shape a)) idx)"
  using channel_of_expanded [OF assms] by (simp add: expand_def)


lemma shape_expand [simp]: "shape (expand a k) = Suc 0 # shape a @ replicate k (Suc 0)"
  by (simp add: expand_def)



subsection \<open>The fixed variant, forward\<close>

lemma shape_map_array [simp]: "shape (map_array f a) = shape a"
  by (simp add: map_array_def)

lemma elt_map_array [simp]: "elt (map_array f a) idx = f (elt a idx)"
  by (simp add: map_array_def)




subsection \<open>The masked forward computation\<close>








lemma shape_of_flat [simp]: "shape (of_flat s xs) = s"
  by (simp add: of_flat_def)

lemma elt_of_flat_rows [simp]: "elt (of_flat [R, C] xs) [r, c] = xs ! (r * C + c)"
  by (simp add: of_flat_def)


lemma shape_mean_axis0 [simp]: "shape (mean_axis0 a) = tl (shape a)"
  by (simp add: mean_axis0_def)

lemma shape_var_axis0 [simp]: "shape (var_axis0 a) = tl (shape a)"
  by (simp add: var_axis0_def)

lemma shape_sum_axis0 [simp]: "shape (sum_axis0 a) = tl (shape a)"
  by (simp add: sum_axis0_def)









text \<open>Statistics of finite rows are finite, and the variance is not negative.\<close>

lemma fdiv_Fin: "n \<noteq> 0 \<Longrightarrow> fdiv (Fin a) (Fin n) = Fin (a / n)"
  by simp





lemma pow_neg_half_fin: "0 < w \<Longrightarrow> is_fin (pow_neg_half (Fin w))"
  by simp

lemma channel_index_3 [simp]: "channel_index (Suc 0) [b, c, l] = [c]"
  by (simp add: channel_index_def)








end
